theory Spec2Isabelle
  imports Main
begin

section \<open>Clearance and netclass resolution of pcbnew/board_connected_item.cpp\<close>

text \<open>
  The development embeds the member functions of \<^verbatim>\<open>BOARD_CONNECTED_ITEM\<close>:
  \<^verbatim>\<open>SetNetCode\<close>, \<^verbatim>\<open>GetEffectiveNetclass\<close>, \<^verbatim>\<open>GetNetClass\<close>,
  \<^verbatim>\<open>GetRuleClearance\<close> and \<^verbatim>\<open>GetClearance\<close>.

  Conventions.
  \<^item> A C++ \<^verbatim>\<open>int\<close> is an \<open>int\<close>: the functions only compare and copy the values,
    they never do arithmetic on them, so no wrap-around can occur.
  \<^item> A pointer that may be null is an \<open>option\<close>; \<open>None\<close> is \<^verbatim>\<open>nullptr\<close>.
    Dereferencing a null pointer is the error \<open>NullDeref\<close>.
  \<^item> A \<^verbatim>\<open>wxString*\<close> out-parameter is a \<open>string option\<close>: \<open>None\<close> when the caller
    passed \<^verbatim>\<open>nullptr\<close>, \<open>Some s\<close> when it points to a string whose content is \<open>s\<close>.
    A function that may write through it returns the new content.
  \<^item> Boards live in a store indexed by address, items hold the address of their board.
\<close>

subsection \<open>Data\<close>

datatype error = NullDeref

datatype PCB_LAYER_ID =
    UNDEFINED_LAYER
  | F_Cu | In_Cu nat | B_Cu
  | F_SilkS | B_SilkS | F_Mask | B_Mask
  | Dwgs_User | Cmts_User
  | Edge_Cuts | Margin
  | F_CrtYd | B_CrtYd | F_Fab | B_Fab

record NETCLASS =
  m_Name :: string
  m_Clearance :: int
  m_ClearanceSource :: string

record NETINFO_ITEM =
  m_NetCode :: int
  m_Netname :: string
  m_NetClass :: "NETCLASS option"

type_synonym board_ptr = nat

text \<open>
  \<open>BOARD_CONNECTED_ITEM\<close>: the fields the five functions read or write.
  \<open>m_Parent\<close> is the board \<^verbatim>\<open>GetBoard()\<close> finds, \<open>m_Layer\<close> what \<^verbatim>\<open>GetLayer()\<close>
  returns, \<open>m_IsOnCopperLayer\<close> what the virtual \<^verbatim>\<open>IsOnCopperLayer()\<close> returns (the
  copper-layer membership of the item is not empty), \<open>m_netinfo\<close> the net record.
  The virtual \<^verbatim>\<open>GetLocalClearanceOverrides\<close> and \<^verbatim>\<open>GetLocalClearance\<close> have their
  overriders outside this file: the item carries the value each returns and the label
  each attaches to it.
\<close>

record BOARD_CONNECTED_ITEM =
  m_Parent :: "board_ptr option"
  m_Layer :: PCB_LAYER_ID
  m_IsOnCopperLayer :: bool
  m_netinfo :: "NETINFO_ITEM option"
  m_LocalClearanceOverrides :: int
  m_LocalClearanceOverridesSource :: string
  m_LocalClearance :: int
  m_LocalClearanceSource :: string

text \<open>
  A \<^verbatim>\<open>BOARD_ITEM*\<close> points either to a connected item or to an item of another kind
  (a graphic line, a text), of which only the layer is read. The tag decides the
  \<^verbatim>\<open>dynamic_cast<BOARD_CONNECTED_ITEM*>\<close>.
\<close>

datatype BOARD_ITEM =
    Connected BOARD_CONNECTED_ITEM
  | NotConnected PCB_LAYER_ID

datatype DRC_CONSTRAINT_TYPE_T =
    DRC_CONSTRAINT_TYPE_CLEARANCE
  | DRC_CONSTRAINT_TYPE_HOLE_CLEARANCE
  | DRC_CONSTRAINT_TYPE_EDGE_CLEARANCE
  | DRC_CONSTRAINT_TYPE_TRACK_WIDTH

record MINOPTMAX =
  m_min :: int

record DRC_CONSTRAINT =
  m_Type :: DRC_CONSTRAINT_TYPE_T
  m_Value :: MINOPTMAX

record DRC_RULE =
  m_RuleName :: string
  m_Condition :: "BOARD_CONNECTED_ITEM \<Rightarrow> BOARD_ITEM option \<Rightarrow> PCB_LAYER_ID \<Rightarrow> bool"
  m_Constraint :: DRC_CONSTRAINT

record BOARD_DESIGN_SETTINGS =
  m_MinClearance :: int
  m_CopperEdgeClearance :: int
  m_Default :: NETCLASS
  m_DRCRules :: "DRC_RULE list"

record BOARD =
  m_designSettings :: BOARD_DESIGN_SETTINGS
  m_NetInfo :: "NETINFO_ITEM list"

type_synonym boards = "board_ptr \<Rightarrow> BOARD"

subsection \<open>Collaborators that are declared outside the file\<close>

definition GetBoard :: "boards \<Rightarrow> BOARD_CONNECTED_ITEM \<Rightarrow> BOARD option" where
  "GetBoard h this = (case m_Parent this of None \<Rightarrow> None | Some p \<Rightarrow> Some (h p))"

definition GetDesignSettings :: "BOARD \<Rightarrow> BOARD_DESIGN_SETTINGS" where
  "GetDesignSettings board = m_designSettings board"

text \<open>
  Modelled from the spec: \<^verbatim>\<open>GetDefault\<close> is declared outside the file. The spec has
  exactly one Default Netclass per board design, so the pointer returned is never null.
\<close>

definition GetDefault :: "BOARD_DESIGN_SETTINGS \<Rightarrow> NETCLASS option" where
  "GetDefault bds = Some (m_Default bds)"

text \<open>
  Modelled from the spec: \<^verbatim>\<open>BOARD::FindNet\<close> is declared outside the file. The net
  registry of the board maps a net code to the net record stored under it, and to null
  when there is none.
\<close>

definition FindNet :: "BOARD \<Rightarrow> int \<Rightarrow> NETINFO_ITEM option" where
  "FindNet board aNetcode = find (\<lambda>n. m_NetCode n = aNetcode) (m_NetInfo board)"

definition GetLayer :: "BOARD_ITEM \<Rightarrow> PCB_LAYER_ID" where
  "GetLayer aItem = (case aItem of Connected c \<Rightarrow> m_Layer c | NotConnected l \<Rightarrow> l)"

definition dynamic_cast :: "BOARD_ITEM option \<Rightarrow> BOARD_CONNECTED_ITEM option" where
  "dynamic_cast aItem =
     (case aItem of None \<Rightarrow> None
      | Some (Connected c) \<Rightarrow> Some c
      | Some (NotConnected l) \<Rightarrow> None)"

text \<open>Writing a label through a \<^verbatim>\<open>wxString*\<close>: nothing happens on a null pointer.\<close>

definition assign :: "string option \<Rightarrow> string \<Rightarrow> string option" where
  "assign aSource s = (case aSource of None \<Rightarrow> None | Some old \<Rightarrow> Some s)"

text \<open>
  Modelled from the spec: the three accessors below are declared outside the file. Each
  returns the value of its candidate and, when asked, the label attached to it.
\<close>

definition GetLocalClearanceOverrides ::
  "BOARD_CONNECTED_ITEM \<Rightarrow> string option \<Rightarrow> int \<times> string option" where
  "GetLocalClearanceOverrides this aSource =
     (m_LocalClearanceOverrides this, assign aSource (m_LocalClearanceOverridesSource this))"

definition GetLocalClearance ::
  "BOARD_CONNECTED_ITEM \<Rightarrow> string option \<Rightarrow> int \<times> string option" where
  "GetLocalClearance this aSource =
     (m_LocalClearance this, assign aSource (m_LocalClearanceSource this))"

definition NETCLASS_GetClearance :: "NETCLASS \<Rightarrow> string option \<Rightarrow> int \<times> string option" where
  "NETCLASS_GetClearance nc aSource =
     (m_Clearance nc, assign aSource (m_ClearanceSource nc))"

text \<open>
  Modelled from the spec: \<^verbatim>\<open>GetConstraint\<close> is declared outside the file. It iterates
  the ordered rule set of the board; a rule matches when its selector accepts
  (itemA, itemB, layer) and its constraint is of the kind asked for; the first match
  wins and its name is written to the label.
\<close>

fun first_rule ::
  "DRC_RULE list \<Rightarrow> BOARD_CONNECTED_ITEM \<Rightarrow> BOARD_ITEM option \<Rightarrow> DRC_CONSTRAINT_TYPE_T
     \<Rightarrow> PCB_LAYER_ID \<Rightarrow> DRC_RULE option" where
  "first_rule [] aItem bItem aConstraint aLayer = None"
| "first_rule (rule # rules) aItem bItem aConstraint aLayer =
     (if m_Condition rule aItem bItem aLayer \<and> m_Type (m_Constraint rule) = aConstraint
      then Some rule
      else first_rule rules aItem bItem aConstraint aLayer)"

definition GetConstraint ::
  "boards \<Rightarrow> BOARD_CONNECTED_ITEM \<Rightarrow> BOARD_ITEM option \<Rightarrow> DRC_CONSTRAINT_TYPE_T
     \<Rightarrow> PCB_LAYER_ID \<Rightarrow> string option \<Rightarrow> DRC_CONSTRAINT option \<times> string option" where
  "GetConstraint h aItem bItem aConstraint aLayer aRuleName =
     (case GetBoard h aItem of
        None \<Rightarrow> (None, aRuleName)
      | Some board \<Rightarrow>
          (case first_rule (m_DRCRules (GetDesignSettings board)) aItem bItem aConstraint aLayer of
             None \<Rightarrow> (None, aRuleName)
           | Some rule \<Rightarrow> (Some (m_Constraint rule), assign aRuleName (m_RuleName rule))))"

subsection \<open>SetNetCode\<close>

text \<open>
  \<^verbatim>\<open>NETINFO_LIST::OrphanedItem()\<close>, the shared orphaned net record, is declared outside
  the file and is a parameter here. The result holds the item with its new
  \<open>m_netinfo\<close>, the value returned and whether \<^verbatim>\<open>wxASSERT( m_netinfo )\<close> fired (the
  assertion reports and execution goes on).
\<close>

record SetNetCode_result =
  item_after :: BOARD_CONNECTED_ITEM
  returned :: bool
  assert_failed :: bool

definition SetNetCode ::
  "boards \<Rightarrow> NETINFO_ITEM \<Rightarrow> BOARD_CONNECTED_ITEM \<Rightarrow> int \<Rightarrow> bool \<Rightarrow> SetNetCode_result" where
  "SetNetCode h OrphanedItem this aNetCode aNoAssert =
     (let aNetCode = (if \<not> m_IsOnCopperLayer this then 0 else aNetCode);
          board = GetBoard h this;
          netinfo = (case board of
                       Some b \<Rightarrow> (if aNetCode \<ge> 0 then FindNet b aNetCode else Some OrphanedItem)
                     | None \<Rightarrow> Some OrphanedItem)
      in \<lparr> item_after = this\<lparr> m_netinfo := netinfo \<rparr>,
           returned = (netinfo \<noteq> None),
           assert_failed = (\<not> aNoAssert \<and> netinfo = None) \<rparr>)"

subsection \<open>GetNetClass and GetEffectiveNetclass\<close>

definition GetNetClass :: "boards \<Rightarrow> BOARD_CONNECTED_ITEM \<Rightarrow> error + NETCLASS option" where
  "GetNetClass h this =
     (case m_netinfo this of
        None \<Rightarrow> Inl NullDeref
      | Some netinfo \<Rightarrow>
          (case m_NetClass netinfo of
             Some netclass \<Rightarrow> Inr (Some netclass)
           | None \<Rightarrow>
               (case GetBoard h this of
                  None \<Rightarrow> Inl NullDeref
                | Some board \<Rightarrow> Inr (GetDefault (GetDesignSettings board)))))"

definition GetEffectiveNetclass ::
  "boards \<Rightarrow> BOARD_CONNECTED_ITEM \<Rightarrow> error + NETCLASS option" where
  "GetEffectiveNetclass h this =
     (case m_netinfo this of
        None \<Rightarrow> Inl NullDeref
      | Some netinfo \<Rightarrow>
          if m_NetCode netinfo = 0
          then (case GetBoard h this of
                  None \<Rightarrow> Inl NullDeref
                | Some board \<Rightarrow> Inr (GetDefault (GetDesignSettings board)))
          else GetNetClass h this)"

subsection \<open>GetRuleClearance and GetClearance\<close>

text \<open>
  \<^verbatim>\<open>GetRuleClearance\<close> returns its flag, the content of \<^verbatim>\<open>*aClearance\<close> and the
  content of \<^verbatim>\<open>*aSource\<close> after the call.
\<close>

definition GetRuleClearance ::
  "boards \<Rightarrow> BOARD_CONNECTED_ITEM \<Rightarrow> BOARD_ITEM option \<Rightarrow> PCB_LAYER_ID \<Rightarrow> int
     \<Rightarrow> string option \<Rightarrow> bool \<times> int \<times> string option" where
  "GetRuleClearance h this aItem aLayer aClearance aSource =
     (case GetConstraint h this aItem DRC_CONSTRAINT_TYPE_CLEARANCE aLayer aSource of
        (Some constraint, aSource1) \<Rightarrow>
          (True, m_min (m_Value constraint),
           (case aSource1 of None \<Rightarrow> None
            | Some s \<Rightarrow> Some ([CHR 0x27] @ s @ [CHR 0x27] @ '' rule'')))
      | (None, aSource1) \<Rightarrow> (False, aClearance, aSource1))"

text \<open>
  LEVEL 1 of \<^verbatim>\<open>GetClearance\<close>: the two local overrides. \<open>localSource\<close> points to the
  local string \<^verbatim>\<open>source\<close> when the caller wants a label.
\<close>

definition level1 ::
  "BOARD_CONNECTED_ITEM \<Rightarrow> BOARD_CONNECTED_ITEM option \<Rightarrow> int \<Rightarrow> string option
     \<Rightarrow> int \<times> string option" where
  "level1 this second clearance localSource =
     (let (clearance, localSource) =
            (if fst (GetLocalClearanceOverrides this None) > clearance
             then GetLocalClearanceOverrides this localSource
             else (clearance, localSource))
      in (case second of
            None \<Rightarrow> (clearance, localSource)
          | Some s \<Rightarrow>
              if fst (GetLocalClearanceOverrides s None) > clearance
              then GetLocalClearanceOverrides s localSource
              else (clearance, localSource)))"

text \<open>LEVEL 3 of \<^verbatim>\<open>GetClearance\<close>: the accumulated settings.\<close>

definition level3 ::
  "boards \<Rightarrow> BOARD \<Rightarrow> BOARD_CONNECTED_ITEM \<Rightarrow> BOARD_ITEM option
     \<Rightarrow> BOARD_CONNECTED_ITEM option \<Rightarrow> int \<Rightarrow> string option
     \<Rightarrow> error + (int \<times> string option)" where
  "level3 h board this aItem second clearance aSource =
     (let bds = GetDesignSettings board in
      case GetEffectiveNetclass h this of
        Inl e \<Rightarrow> Inl e
      | Inr netclass \<Rightarrow>
      (case (case second of None \<Rightarrow> Inr None | Some s \<Rightarrow> GetEffectiveNetclass h s) of
        Inl e \<Rightarrow> Inl e
      | Inr secondNetclass \<Rightarrow>
      (let (clearance, aSource) =
             (if m_MinClearance bds > clearance
              then (m_MinClearance bds, assign aSource ''board minimum'')
              else (clearance, aSource));
           (clearance, aSource) =
             (case netclass of
                None \<Rightarrow> (clearance, aSource)
              | Some nc \<Rightarrow>
                  if fst (NETCLASS_GetClearance nc None) > clearance
                  then NETCLASS_GetClearance nc aSource
                  else (clearance, aSource));
           (clearance, aSource) =
             (case secondNetclass of
                None \<Rightarrow> (clearance, aSource)
              | Some nc \<Rightarrow>
                  if fst (NETCLASS_GetClearance nc None) > clearance
                  then NETCLASS_GetClearance nc aSource
                  else (clearance, aSource));
           (clearance, aSource) =
             (if (case aItem of None \<Rightarrow> False | Some it \<Rightarrow> GetLayer it = Edge_Cuts)
                 \<and> m_CopperEdgeClearance bds > clearance
              then (m_CopperEdgeClearance bds, assign aSource ''board edge'')
              else (clearance, aSource));
           (clearance, aSource) =
             (if fst (GetLocalClearance this None) > clearance
              then GetLocalClearance this aSource
              else (clearance, aSource));
           (clearance, aSource) =
             (case second of
                None \<Rightarrow> (clearance, aSource)
              | Some s \<Rightarrow>
                  if fst (GetLocalClearance s None) > clearance
                  then GetLocalClearance s aSource
                  else (clearance, aSource))
       in Inr (clearance, aSource))))"

definition GetClearance ::
  "boards \<Rightarrow> BOARD_CONNECTED_ITEM \<Rightarrow> PCB_LAYER_ID \<Rightarrow> BOARD_ITEM option \<Rightarrow> string option
     \<Rightarrow> error + (int \<times> string option)" where
  "GetClearance h this aLayer aItem aSource =
     (let board = GetBoard h this;
          clearance = 0;
          localSource = (case aSource of None \<Rightarrow> None | Some s \<Rightarrow> Some []);
          second = dynamic_cast aItem
      in case board of
           None \<Rightarrow> Inr (clearance, aSource)
         | Some b \<Rightarrow>
             (let (clearance, localSource) = level1 this second clearance localSource
              in if clearance \<noteq> 0
                 then Inr (clearance,
                           (case aSource of None \<Rightarrow> None | Some s \<Rightarrow> localSource))
                 else (case GetRuleClearance h this aItem aLayer clearance aSource of
                         (True, clearance, aSource) \<Rightarrow> Inr (clearance, aSource)
                       | (False, clearance, aSource) \<Rightarrow>
                           level3 h b this aItem second clearance aSource)))"

subsection \<open>The spec's reading of the cascade\<close>

text \<open>
  The definitions below follow the words of the spec, not the code; the theorems compare
  them with \<open>GetClearance\<close>.

  A candidate replaces the running value only when it is strictly greater, and then
  its label replaces the running label.
\<close>

definition raise_to :: "int \<times> string option \<Rightarrow> int \<times> string \<Rightarrow> int \<times> string option" where
  "raise_to running candidate =
     (if fst candidate > fst running
      then (fst candidate, assign (snd running) (snd candidate))
      else running)"

text \<open>
  The Level 3 candidates in the order of the spec: board minimum, itemA's effective
  netclass \<open>ncA\<close>, itemB's effective netclass \<open>ncB\<close> (itemB present with a net), the
  copper-edge clearance (itemB on \<open>Edge_Cuts\<close>), itemA's local clearance, itemB's
  local clearance (itemB present with a net).
\<close>

definition level3_candidates ::
  "BOARD_DESIGN_SETTINGS \<Rightarrow> BOARD_CONNECTED_ITEM \<Rightarrow> NETCLASS \<Rightarrow> BOARD_ITEM option \<Rightarrow> NETCLASS
     \<Rightarrow> (int \<times> string) list" where
  "level3_candidates bds itemA ncA itemB ncB =
     [(m_MinClearance bds, ''board minimum''),
      (m_Clearance ncA, m_ClearanceSource ncA)]
     @ (case dynamic_cast itemB of None \<Rightarrow> []
        | Some b \<Rightarrow> [(m_Clearance ncB, m_ClearanceSource ncB)])
     @ (case itemB of None \<Rightarrow> []
        | Some it \<Rightarrow> if GetLayer it = Edge_Cuts
                     then [(m_CopperEdgeClearance bds, ''board edge'')] else [])
     @ [(m_LocalClearance itemA, m_LocalClearanceSource itemA)]
     @ (case dynamic_cast itemB of None \<Rightarrow> []
        | Some b \<Rightarrow> [(m_LocalClearance b, m_LocalClearanceSource b)])"

text \<open>The maximum of the local clearance overrides of itemA and, when it has one, itemB.\<close>

definition local_overrides_max :: "BOARD_CONNECTED_ITEM \<Rightarrow> BOARD_ITEM option \<Rightarrow> int" where
  "local_overrides_max itemA itemB =
     (case dynamic_cast itemB of
        None \<Rightarrow> m_LocalClearanceOverrides itemA
      | Some b \<Rightarrow> max (m_LocalClearanceOverrides itemA) (m_LocalClearanceOverrides b))"

text \<open>The clearance alone, without the label.\<close>

definition clearance_of :: "error + (int \<times> string option) \<Rightarrow> error + int" where
  "clearance_of r = (case r of Inl e \<Rightarrow> Inl e | Inr (c, s) \<Rightarrow> Inr c)"

text \<open>The store in which the board at \<open>p\<close> has minimum clearance \<open>m\<close>, all else equal.\<close>

definition with_MinClearance :: "boards \<Rightarrow> board_ptr \<Rightarrow> int \<Rightarrow> boards" where
  "with_MinClearance h p m =
     h(p := (h p)\<lparr> m_designSettings := (m_designSettings (h p))\<lparr> m_MinClearance := m \<rparr> \<rparr>)"

subsection \<open>Example boards and items\<close>

definition ex_Default :: NETCLASS where
  "ex_Default = \<lparr> m_Name = ''Default'', m_Clearance = 200, m_ClearanceSource = ''netclass Default'' \<rparr>"

definition ex_Signal :: NETCLASS where
  "ex_Signal = \<lparr> m_Name = ''Signal'', m_Clearance = 180, m_ClearanceSource = ''netclass Signal'' \<rparr>"

definition ex_HV :: NETCLASS where
  "ex_HV = \<lparr> m_Name = ''HV'', m_Clearance = 300, m_ClearanceSource = ''netclass HV'' \<rparr>"

definition ex_net0 :: NETINFO_ITEM where
  "ex_net0 = \<lparr> m_NetCode = 0, m_Netname = [], m_NetClass = None \<rparr>"

definition ex_net0_stale :: NETINFO_ITEM where
  "ex_net0_stale = \<lparr> m_NetCode = 0, m_Netname = [], m_NetClass = Some ex_HV \<rparr>"

definition ex_net1 :: NETINFO_ITEM where
  "ex_net1 = \<lparr> m_NetCode = 1, m_Netname = ''SIG'', m_NetClass = Some ex_Signal \<rparr>"

definition ex_net2 :: NETINFO_ITEM where
  "ex_net2 = \<lparr> m_NetCode = 2, m_Netname = ''HV'', m_NetClass = Some ex_HV \<rparr>"

definition ex_orphan :: NETINFO_ITEM where
  "ex_orphan = \<lparr> m_NetCode = 0, m_Netname = [], m_NetClass = None \<rparr>"

definition ex_settings :: BOARD_DESIGN_SETTINGS where
  "ex_settings = \<lparr> m_MinClearance = 150, m_CopperEdgeClearance = 250,
                   m_Default = ex_Default, m_DRCRules = [] \<rparr>"

definition ex_rule :: "int \<Rightarrow> DRC_RULE" where
  "ex_rule v = \<lparr> m_RuleName = ''r1'', m_Condition = (\<lambda>a b l. True),
                 m_Constraint = \<lparr> m_Type = DRC_CONSTRAINT_TYPE_CLEARANCE,
                                  m_Value = \<lparr> m_min = v \<rparr> \<rparr> \<rparr>"

definition ex_board :: "DRC_RULE list \<Rightarrow> BOARD" where
  "ex_board rules = \<lparr> m_designSettings = ex_settings\<lparr> m_DRCRules := rules \<rparr>,
                      m_NetInfo = [ex_net0, ex_net1, ex_net2] \<rparr>"

definition ex_boards :: "DRC_RULE list \<Rightarrow> boards" where
  "ex_boards rules = (\<lambda>p. ex_board rules)"

definition ex_itemA :: BOARD_CONNECTED_ITEM where
  "ex_itemA = \<lparr> m_Parent = Some 0, m_Layer = F_Cu, m_IsOnCopperLayer = True,
                m_netinfo = Some ex_net0,
                m_LocalClearanceOverrides = 0, m_LocalClearanceOverridesSource = [],
                m_LocalClearance = 0, m_LocalClearanceSource = [] \<rparr>"

definition ex_itemB :: BOARD_CONNECTED_ITEM where
  "ex_itemB = ex_itemA\<lparr> m_Layer := Edge_Cuts, m_netinfo := Some ex_net1 \<rparr>"

definition ex_itemHV :: BOARD_CONNECTED_ITEM where
  "ex_itemHV = ex_itemA\<lparr> m_netinfo := Some ex_net2 \<rparr>"

definition ex_pad :: BOARD_CONNECTED_ITEM where
  "ex_pad = ex_itemA\<lparr> m_LocalClearanceOverrides := 100,
                       m_LocalClearanceOverridesSource := ''pad'' \<rparr>"

definition ex_stale :: BOARD_CONNECTED_ITEM where
  "ex_stale = ex_itemA\<lparr> m_netinfo := Some ex_net0_stale \<rparr>"

definition ex_unplaced :: BOARD_CONNECTED_ITEM where
  "ex_unplaced = ex_itemHV\<lparr> m_Parent := None \<rparr>"

definition ex_offCopper :: BOARD_CONNECTED_ITEM where
  "ex_offCopper = ex_itemHV\<lparr> m_Layer := F_SilkS, m_IsOnCopperLayer := False \<rparr>"

section \<open>Auxiliary facts\<close>

lemma fst_foldl_raise_to:
  "fst (foldl raise_to r xs) = foldl max (fst r) (map fst xs)"
  by (induction xs arbitrary: r) (auto simp: raise_to_def max_def)

lemma foldl_max_Max:
  "foldl max (c::int) xs = Max (insert c (set xs))"
proof (induction xs arbitrary: c)
  case Nil
  then show ?case by simp
next
  case (Cons x xs)
  have "Max (insert (max c x) (set xs)) = Max (insert c (insert x (set xs)))"
    by (cases "set xs = {}") (auto simp: max.assoc)
  with Cons show ?case by simp
qed

lemma foldl_max_mono:
  "(c::int) \<le> d \<Longrightarrow> foldl max c xs \<le> foldl max d xs"
  by (induction xs arbitrary: c d) (auto intro: max.mono)

lemma foldl_max_ge: "(c::int) \<le> foldl max c xs"
  by (simp add: foldl_max_Max)

lemma GetEffectiveNetclass_cases:
  "GetEffectiveNetclass h x = Inl NullDeref \<or> (\<exists>nc. GetEffectiveNetclass h x = Inr (Some nc))"
  by (simp add: GetEffectiveNetclass_def GetNetClass_def GetDefault_def
        split: option.split)

lemma fst_level1:
  "fst (level1 this (dynamic_cast aItem) 0 ls) = max 0 (local_overrides_max this aItem)"
  by (simp add: level1_def local_overrides_max_def GetLocalClearanceOverrides_def Let_def
        split: option.split)

lemma step_value:
  "(if c < v then (v, assign s l) else (c, s)) = raise_to (c, s) (v, l)"
  by (simp add: raise_to_def)

lemma step_edge:
  "(if P \<and> c < v then (v, assign s l) else (c, s)) =
   (if P then raise_to (c, s) (v, l) else (c, s))"
  by (simp add: raise_to_def)

lemma step_netclass:
  "(if c < fst (NETCLASS_GetClearance nc None) then NETCLASS_GetClearance nc s else (c, s)) =
   raise_to (c, s) (m_Clearance nc, m_ClearanceSource nc)"
  by (simp add: raise_to_def NETCLASS_GetClearance_def)

lemma step_local:
  "(if c < fst (GetLocalClearance x None) then GetLocalClearance x s else (c, s)) =
   raise_to (c, s) (m_LocalClearance x, m_LocalClearanceSource x)"
  by (simp add: raise_to_def GetLocalClearance_def)

lemmas steps = step_value step_edge step_netclass step_local

lemma level3_result:
  assumes "GetEffectiveNetclass h this = Inr (Some ncA)"
    and "\<And>s. dynamic_cast aItem = Some s \<Longrightarrow> GetEffectiveNetclass h s = Inr (Some ncB)"
  shows "level3 h board this aItem (dynamic_cast aItem) c aSource =
         Inr (foldl raise_to (c, aSource)
               (level3_candidates (GetDesignSettings board) this ncA aItem ncB))"
proof (cases "dynamic_cast aItem")
  case None
  show ?thesis
    unfolding level3_def level3_candidates_def None
    apply (simp add: assms(1) steps Let_def case_prod_beta split del: if_split)
    apply (simp split: option.split)
    done
next
  case (Some s)
  have eff: "GetEffectiveNetclass h s = Inr (Some ncB)"
    using assms(2) Some by simp
  show ?thesis
    unfolding level3_def level3_candidates_def Some
    apply (simp add: assms(1) eff steps Let_def case_prod_beta split del: if_split)
    apply (simp split: option.split)
    done
qed

lemma level3_error_this:
  "GetEffectiveNetclass h this = Inl e \<Longrightarrow> level3 h board this aItem second c aSource = Inl e"
  by (simp add: level3_def Let_def)

lemma level3_error_second:
  assumes "GetEffectiveNetclass h s = Inl e"
  shows "level3 h board this aItem (Some s) c aSource = Inl NullDeref"
proof (cases "GetEffectiveNetclass h this")
  case (Inl e')
  then show ?thesis by (cases e') (simp add: level3_def Let_def)
next
  case (Inr nc)
  then show ?thesis using assms by (cases e) (simp add: level3_def Let_def)
qed

lemma GetConstraint_fst_source:
  "fst (GetConstraint h a b k l src) = fst (GetConstraint h a b k l src')"
  by (simp add: GetConstraint_def split: option.split)

lemma GetClearance_level1:
  assumes "GetBoard h this = Some b" and "0 < local_overrides_max this aItem"
  shows "GetClearance h this aLayer aItem aSource =
         Inr (local_overrides_max this aItem,
              (case aSource of None \<Rightarrow> None
               | Some s \<Rightarrow> snd (level1 this (dynamic_cast aItem) 0 (Some []))))"
proof -
  let ?ls = "case aSource of None \<Rightarrow> None | Some s \<Rightarrow> Some []"
  obtain c ls where l1: "level1 this (dynamic_cast aItem) 0 ?ls = (c, ls)"
    by (cases "level1 this (dynamic_cast aItem) 0 ?ls")
  have "c = max 0 (local_overrides_max this aItem)"
    using fst_level1 [of this aItem ?ls] l1 by simp
  then have c: "c = local_overrides_max this aItem" "c \<noteq> 0"
    using assms(2) by simp_all
  show ?thesis
    using assms(1) l1 c
    by (cases aSource) (simp_all add: GetClearance_def Let_def)
qed

lemma GetClearance_level23:
  assumes "GetBoard h this = Some b" and "local_overrides_max this aItem \<le> 0"
  shows "GetClearance h this aLayer aItem aSource =
         (case GetRuleClearance h this aItem aLayer 0 aSource of
            (True, clearance, src) \<Rightarrow> Inr (clearance, src)
          | (False, clearance, src) \<Rightarrow>
              level3 h b this aItem (dynamic_cast aItem) clearance src)"
proof -
  let ?ls = "case aSource of None \<Rightarrow> None | Some s \<Rightarrow> Some []"
  obtain c ls where l1: "level1 this (dynamic_cast aItem) 0 ?ls = (c, ls)"
    by (cases "level1 this (dynamic_cast aItem) 0 ?ls")
  have "c = max 0 (local_overrides_max this aItem)"
    using fst_level1 [of this aItem ?ls] l1 by simp
  then have c: "c = 0"
    using assms(2) by simp
  show ?thesis
    using assms(1) l1 c
    by (simp add: GetClearance_def Let_def)
qed

lemma GetRuleClearance_match:
  "GetConstraint h this aItem DRC_CONSTRAINT_TYPE_CLEARANCE aLayer aSource = (Some con, src) \<Longrightarrow>
   GetRuleClearance h this aItem aLayer c aSource =
     (True, m_min (m_Value con),
      (case src of None \<Rightarrow> None | Some s \<Rightarrow> Some ([CHR 0x27] @ s @ [CHR 0x27] @ '' rule'')))"
  by (simp add: GetRuleClearance_def)

lemma GetRuleClearance_no_match:
  "fst (GetConstraint h this aItem DRC_CONSTRAINT_TYPE_CLEARANCE aLayer aSource) = None \<Longrightarrow>
   GetRuleClearance h this aItem aLayer c aSource = (False, c, aSource)"
  by (cases "GetConstraint h this aItem DRC_CONSTRAINT_TYPE_CLEARANCE aLayer aSource")
     (auto simp add: GetRuleClearance_def GetConstraint_def split: option.splits)

lemma GetBoard_Some: "m_Parent x = Some p \<Longrightarrow> GetBoard h x = Some (h p)"
  by (simp add: GetBoard_def)

lemmas ex_defs =
  ex_Default_def ex_Signal_def ex_HV_def ex_net0_def ex_net0_stale_def ex_net1_def ex_net2_def
  ex_orphan_def ex_settings_def ex_rule_def ex_board_def ex_boards_def ex_itemA_def
  ex_itemB_def ex_itemHV_def ex_pad_def ex_stale_def ex_unplaced_def ex_offCopper_def

lemmas code_defs =
  GetBoard_def GetDesignSettings_def GetDefault_def FindNet_def GetLayer_def dynamic_cast_def
  assign_def GetLocalClearanceOverrides_def GetLocalClearance_def NETCLASS_GetClearance_def
  GetConstraint_def GetNetClass_def GetEffectiveNetclass_def GetRuleClearance_def
  level1_def level3_def GetClearance_def

lemma GetEffectiveNetclass_cong:
  "m_netinfo x = m_netinfo y \<Longrightarrow> m_Parent x = m_Parent y \<Longrightarrow>
   GetEffectiveNetclass h x = GetEffectiveNetclass h y"
  by (simp add: GetEffectiveNetclass_def GetNetClass_def GetBoard_def split: option.split)

lemma SetNetCode_Parent:
  "m_Parent (item_after (SetNetCode h orphan item n noAssert)) = m_Parent item"
  by (simp add: SetNetCode_def Let_def)

lemma SetNetCode_zero:
  "m_netinfo (item_after (SetNetCode h orphan item 0 noAssert)) =
     (case m_Parent item of None \<Rightarrow> Some orphan | Some p \<Rightarrow> FindNet (h p) 0)"
  by (simp add: SetNetCode_def GetBoard_def Let_def split: option.split)

lemma level3_cases:
  "level3 h b this aItem (dynamic_cast aItem) c src = Inl NullDeref
   \<or> (\<exists>ncA ncB. level3 h b this aItem (dynamic_cast aItem) c src =
          Inr (foldl raise_to (c, src)
                (level3_candidates (GetDesignSettings b) this ncA aItem ncB))
        \<and> GetEffectiveNetclass h this = Inr (Some ncA)
        \<and> (\<forall>s. dynamic_cast aItem = Some s \<longrightarrow> GetEffectiveNetclass h s = Inr (Some ncB)))"
proof -
  consider (errA) "GetEffectiveNetclass h this = Inl NullDeref"
    | (okA) ncA where "GetEffectiveNetclass h this = Inr (Some ncA)"
    using GetEffectiveNetclass_cases [of h this] by blast
  then show ?thesis
  proof cases
    case errA
    then show ?thesis by (simp add: level3_error_this)
  next
    case okA
    show ?thesis
    proof (cases "dynamic_cast aItem")
      case None
      then have "level3 h b this aItem (dynamic_cast aItem) c src =
          Inr (foldl raise_to (c, src)
                (level3_candidates (GetDesignSettings b) this ncA aItem ncA))"
        using okA by (intro level3_result) simp_all
      then show ?thesis using okA None by auto
    next
      case (Some s)
      consider (errB) "GetEffectiveNetclass h s = Inl NullDeref"
        | (okB) ncB where "GetEffectiveNetclass h s = Inr (Some ncB)"
        using GetEffectiveNetclass_cases [of h s] by blast
      then show ?thesis
      proof cases
        case errB
        then show ?thesis using Some by (simp add: level3_error_second)
      next
        case okB
        then have "level3 h b this aItem (dynamic_cast aItem) c src =
            Inr (foldl raise_to (c, src)
                  (level3_candidates (GetDesignSettings b) this ncA aItem ncB))"
          using okA Some by (intro level3_result) simp_all
        then show ?thesis using okA okB Some by auto
      qed
    qed
  qed
qed

lemma clearance_of_Inr [simp]: "clearance_of (Inr (c, s)) = Inr c"
  by (simp add: clearance_of_def)

lemma clearance_of_Inl [simp]: "clearance_of (Inl e) = Inl e"
  by (simp add: clearance_of_def)

lemma clearance_of_foldl:
  "clearance_of (Inr (foldl raise_to (c, s) xs)) = Inr (foldl max c (map fst xs))"
  by (simp add: clearance_of_def case_prod_beta fst_foldl_raise_to)

lemma GetClearance_level3:
  assumes "m_Parent this = Some p"
    and "local_overrides_max this aItem \<le> 0"
    and "fst (GetConstraint h this aItem DRC_CONSTRAINT_TYPE_CLEARANCE aLayer aSource) = None"
  shows "GetClearance h this aLayer aItem aSource =
         level3 h (h p) this aItem (dynamic_cast aItem) 0 aSource"
  using assms by (simp add: GetClearance_level23 GetBoard_Some GetRuleClearance_no_match)

lemma dynamic_cast_Connected [simp]: "dynamic_cast (Some (Connected c)) = Some c"
  by (simp add: dynamic_cast_def)

lemma GetEffectiveNetclass_with_MinClearance:
  "GetEffectiveNetclass (with_MinClearance h p m) x = GetEffectiveNetclass h x"
  by (simp add: GetEffectiveNetclass_def GetNetClass_def GetBoard_def GetDefault_def
        GetDesignSettings_def with_MinClearance_def split: option.split)

lemma GetConstraint_with_MinClearance:
  "GetConstraint (with_MinClearance h p m) a b k l s = GetConstraint h a b k l s"
  by (simp add: GetConstraint_def GetBoard_def GetDesignSettings_def with_MinClearance_def
        split: option.split)

lemma GetDesignSettings_with_MinClearance:
  "GetDesignSettings (with_MinClearance h p m q) =
     (GetDesignSettings (h q))\<lparr> m_MinClearance := (if q = p then m else m_MinClearance (GetDesignSettings (h q))) \<rparr>"
  by (simp add: GetDesignSettings_def with_MinClearance_def)

lemma level3_candidates_MinClearance:
  "map fst (level3_candidates (bds\<lparr> m_MinClearance := m \<rparr>) a ncA it ncB) =
     m # tl (map fst (level3_candidates bds a ncA it ncB))"
  by (simp add: level3_candidates_def split: option.split)

lemma level3_value_mono:
  assumes "m1 \<le> m2"
  shows "foldl max 0 (map fst (level3_candidates (bds\<lparr> m_MinClearance := m1 \<rparr>) a ncA it ncB))
       \<le> foldl max 0 (map fst (level3_candidates (bds\<lparr> m_MinClearance := m2 \<rparr>) a ncA it ncB))"
  unfolding level3_candidates_MinClearance
  using assms by (simp add: foldl_max_mono)

lemma level3_with_MinClearance:
  "level3 (with_MinClearance h p m) b this aItem second c src = level3 h b this aItem second c src"
  unfolding level3_def GetEffectiveNetclass_with_MinClearance by (rule refl)

lemma find_Some_holds: "find P xs = Some x \<Longrightarrow> P x"
  by (induction xs) (auto split: if_splits)

section \<open>The claims\<close>

subsection \<open>C1: the accumulated settings of Level 3\<close>

text \<open>
  C1. Let itemA be attached to a board, let neither item have a strictly positive local
  clearance override and let no clearance rule match. Then \<open>GetClearance\<close> returns what
  the spec's accumulation returns: it starts from zero and goes through the candidates
  in the fixed order board minimum, itemA's effective netclass, itemB's effective
  netclass (itemB present with a net), copper-edge clearance (itemB present and on
  \<open>Edge_Cuts\<close>), itemA's local clearance, itemB's local clearance, a candidate replacing
  the running value only when strictly greater. The clearance returned is exactly the
  maximum of zero and these candidates. \<open>ncA\<close> and \<open>ncB\<close> are the effective netclasses
  that \<open>GetEffectiveNetclass\<close> resolves for the two items.
\<close>

theorem C1_level3_maximum:
  assumes "m_Parent itemA = Some p"
    and "local_overrides_max itemA aItem \<le> 0"
    and "fst (GetConstraint h itemA aItem DRC_CONSTRAINT_TYPE_CLEARANCE aLayer aSource) = None"
    and "GetEffectiveNetclass h itemA = Inr (Some ncA)"
    and "\<forall>b. dynamic_cast aItem = Some b \<longrightarrow> GetEffectiveNetclass h b = Inr (Some ncB)"
  shows "GetClearance h itemA aLayer aItem aSource =
           Inr (foldl raise_to (0, aSource)
                 (level3_candidates (GetDesignSettings (h p)) itemA ncA aItem ncB))
       \<and> clearance_of (GetClearance h itemA aLayer aItem aSource) =
           Inr (Max (insert 0
                 (fst ` set (level3_candidates (GetDesignSettings (h p)) itemA ncA aItem ncB))))"
proof -
  let ?cands = "level3_candidates (GetDesignSettings (h p)) itemA ncA aItem ncB"
  have "GetClearance h itemA aLayer aItem aSource =
        level3 h (h p) itemA aItem (dynamic_cast aItem) 0 aSource"
    using assms(1,2,3)
    by (simp add: GetClearance_level23 GetBoard_Some GetRuleClearance_no_match)
  also have "\<dots> = Inr (foldl raise_to (0, aSource) ?cands)"
    using assms(4,5) by (intro level3_result) simp_all
  finally have res: "GetClearance h itemA aLayer aItem aSource =
      Inr (foldl raise_to (0, aSource) ?cands)" .
  have "clearance_of (Inr (foldl raise_to (0, aSource) ?cands)) =
        Inr (fst (foldl raise_to (0, aSource) ?cands))"
    by (simp add: clearance_of_def case_prod_beta)
  also have "\<dots> = Inr (Max (insert 0 (fst ` set ?cands)))"
    by (simp add: fst_foldl_raise_to foldl_max_Max)
  finally show ?thesis using res by simp
qed

text \<open>
  The scenario of the spec: board minimum 150, netclass clearances 200 and 180, itemB on
  \<open>Edge_Cuts\<close>, copper-edge clearance 250; the edge clearance dominates.
\<close>

theorem C1_level3_maximum_witness:
  "m_Parent ex_itemA = Some 0
   \<and> local_overrides_max ex_itemA (Some (Connected ex_itemB)) \<le> 0
   \<and> fst (GetConstraint (ex_boards []) ex_itemA (Some (Connected ex_itemB))
            DRC_CONSTRAINT_TYPE_CLEARANCE F_Cu (Some [])) = None
   \<and> GetEffectiveNetclass (ex_boards []) ex_itemA = Inr (Some ex_Default)
   \<and> GetEffectiveNetclass (ex_boards []) ex_itemB = Inr (Some ex_Signal)
   \<and> GetClearance (ex_boards []) ex_itemA F_Cu (Some (Connected ex_itemB)) (Some [])
       = Inr (250, Some ''board edge'')"
proof -
  have 1: "m_Parent ex_itemA = Some 0"
    by (simp add: ex_itemA_def)
  have 2: "local_overrides_max ex_itemA (Some (Connected ex_itemB)) \<le> 0"
    by (simp add: local_overrides_max_def dynamic_cast_def ex_itemA_def ex_itemB_def)
  have 3: "fst (GetConstraint (ex_boards []) ex_itemA (Some (Connected ex_itemB))
            DRC_CONSTRAINT_TYPE_CLEARANCE F_Cu (Some [])) = None"
    by (simp add: GetConstraint_def GetBoard_def GetDesignSettings_def ex_itemA_def
          ex_boards_def ex_board_def ex_settings_def)
  have 4: "GetEffectiveNetclass (ex_boards []) ex_itemA = Inr (Some ex_Default)"
    by (simp add: GetEffectiveNetclass_def GetBoard_def GetDesignSettings_def GetDefault_def
          ex_itemA_def ex_net0_def ex_boards_def ex_board_def ex_settings_def)
  have 5: "GetEffectiveNetclass (ex_boards []) ex_itemB = Inr (Some ex_Signal)"
    by (simp add: GetEffectiveNetclass_def GetNetClass_def ex_itemB_def ex_itemA_def
          ex_net1_def)
  have 6: "\<forall>b. dynamic_cast (Some (Connected ex_itemB)) = Some b \<longrightarrow>
             GetEffectiveNetclass (ex_boards []) b = Inr (Some ex_Signal)"
    using 5 by (simp add: dynamic_cast_def)
  have "GetClearance (ex_boards []) ex_itemA F_Cu (Some (Connected ex_itemB)) (Some [])
       = Inr (250, Some ''board edge'')"
    using C1_level3_maximum [OF 1 2 3 4 6]
    by (simp add: level3_candidates_def raise_to_def assign_def dynamic_cast_def GetLayer_def
          GetDesignSettings_def ex_boards_def ex_board_def ex_settings_def ex_itemA_def
          ex_itemB_def ex_Default_def ex_Signal_def)
  with 1 2 3 4 5 show ?thesis by simp
qed

subsection \<open>C2: local overrides come first\<close>

text \<open>
  C2. For every item pair with itemA attached to a board: when the maximum of the local
  clearance overrides of itemA and itemB is strictly positive, \<open>GetClearance\<close> returns
  that maximum, whatever the rules, the netclasses and the board defaults are.
\<close>

theorem C2_override_precedence:
  assumes "m_Parent itemA = Some p"
    and "0 < local_overrides_max itemA aItem"
  shows "clearance_of (GetClearance h itemA aLayer aItem aSource)
         = Inr (local_overrides_max itemA aItem)"
proof -
  have "GetBoard h itemA = Some (h p)"
    using assms(1) by (simp add: GetBoard_def)
  then show ?thesis
    using assms(2) by (simp add: GetClearance_level1 clearance_of_def)
qed

text \<open>
  A pad with override 100 on a board whose rule matches with 500 and whose default
  netclass asks for 200: the result is 100.
\<close>

theorem C2_override_precedence_witness:
  "m_Parent ex_pad = Some 0
   \<and> 0 < local_overrides_max ex_pad None
   \<and> fst (GetConstraint (ex_boards [ex_rule 500]) ex_pad None DRC_CONSTRAINT_TYPE_CLEARANCE
            F_Cu None) = Some (m_Constraint (ex_rule 500))
   \<and> m_min (m_Value (m_Constraint (ex_rule 500))) = 500
   \<and> GetEffectiveNetclass (ex_boards [ex_rule 500]) ex_pad = Inr (Some ex_Default)
   \<and> m_Clearance ex_Default = 200
   \<and> clearance_of (GetClearance (ex_boards [ex_rule 500]) ex_pad F_Cu None (Some [])) = Inr 100"
proof -
  have 1: "m_Parent ex_pad = Some 0"
    by (simp add: ex_defs)
  have 2: "0 < local_overrides_max ex_pad None"
    by (simp add: local_overrides_max_def dynamic_cast_def ex_defs)
  have 3: "local_overrides_max ex_pad None = 100"
    by (simp add: local_overrides_max_def dynamic_cast_def ex_defs)
  have 4: "fst (GetConstraint (ex_boards [ex_rule 500]) ex_pad None DRC_CONSTRAINT_TYPE_CLEARANCE
            F_Cu None) = Some (m_Constraint (ex_rule 500))"
    by (simp add: GetConstraint_def GetBoard_def GetDesignSettings_def assign_def ex_defs)
  have 5: "GetEffectiveNetclass (ex_boards [ex_rule 500]) ex_pad = Inr (Some ex_Default)"
    by (simp add: GetEffectiveNetclass_def GetBoard_def GetDesignSettings_def GetDefault_def
          ex_defs)
  show ?thesis
    using C2_override_precedence [OF 1 2, of "ex_boards [ex_rule 500]" F_Cu "Some []"] 1 2 3 4 5
    by (simp add: ex_rule_def ex_Default_def)
qed

subsection \<open>C3: a matching rule comes before the defaults\<close>

text \<open>
  C3. For every item pair with itemA attached to a board and no strictly positive local
  clearance override: when a rule of clearance kind matches (itemA, itemB, layer),
  \<open>GetClearance\<close> returns the minimum bound of that rule, with the rule's name as
  label. Level 3 plays no part in the result, so the rule value is returned even when
  the accumulated Level 3 maximum is larger.
\<close>

theorem C3_rule_precedence:
  assumes "m_Parent itemA = Some p"
    and "local_overrides_max itemA aItem \<le> 0"
    and "GetConstraint h itemA aItem DRC_CONSTRAINT_TYPE_CLEARANCE aLayer aSource = (Some con, src)"
  shows "GetClearance h itemA aLayer aItem aSource
         = Inr (m_min (m_Value con),
                (case src of None \<Rightarrow> None
                 | Some s \<Rightarrow> Some ([CHR 0x27] @ s @ [CHR 0x27] @ '' rule'')))"
proof -
  have "GetBoard h itemA = Some (h p)"
    using assms(1) by (simp add: GetBoard_def)
  then show ?thesis
    using assms(2,3) by (simp add: GetClearance_level23 GetRuleClearance_match)
qed

text \<open>
  A rule with minimum 50 matches an item whose netclass asks for 300: Level 3 alone
  would give 300, the result is 50.
\<close>

theorem C3_rule_precedence_witness:
  "m_Parent ex_itemHV = Some 0
   \<and> local_overrides_max ex_itemHV None \<le> 0
   \<and> GetConstraint (ex_boards [ex_rule 50]) ex_itemHV None DRC_CONSTRAINT_TYPE_CLEARANCE F_Cu
        (Some []) = (Some (m_Constraint (ex_rule 50)), Some ''r1'')
   \<and> clearance_of (level3 (ex_boards [ex_rule 50]) (ex_board [ex_rule 50]) ex_itemHV None None 0
        (Some [])) = Inr 300
   \<and> GetClearance (ex_boards [ex_rule 50]) ex_itemHV F_Cu None (Some [])
       = Inr (50, Some ([CHR 0x27] @ ''r1'' @ [CHR 0x27] @ '' rule''))"
proof -
  have 1: "m_Parent ex_itemHV = Some 0"
    by (simp add: ex_defs)
  have 2: "local_overrides_max ex_itemHV None \<le> 0"
    by (simp add: local_overrides_max_def dynamic_cast_def ex_defs)
  have 3: "GetConstraint (ex_boards [ex_rule 50]) ex_itemHV None DRC_CONSTRAINT_TYPE_CLEARANCE F_Cu
        (Some []) = (Some (m_Constraint (ex_rule 50)), Some ''r1'')"
    by (simp add: GetConstraint_def GetBoard_def GetDesignSettings_def assign_def ex_defs)
  have 4: "clearance_of (level3 (ex_boards [ex_rule 50]) (ex_board [ex_rule 50]) ex_itemHV None
        None 0 (Some [])) = Inr 300"
    by (simp add: clearance_of_def code_defs ex_defs)
  show ?thesis
    using C3_rule_precedence [OF 1 2 3] 1 2 3 4
    by (simp add: ex_rule_def)
qed

subsection \<open>C4: the effective netclass\<close>

text \<open>
  C4. For every item attached to a board, \<open>GetEffectiveNetclass\<close> never returns null.
  With a net record on the item it returns the Default netclass of the board when the
  net code is zero, even when the net record holds another netclass; otherwise it
  returns the netclass of the net, and the Default netclass when the net has none.
\<close>

theorem C4_effective_netclass:
  assumes "m_Parent item = Some p"
  shows "GetEffectiveNetclass h item \<noteq> Inr None
       \<and> (\<forall>net. m_netinfo item = Some net \<longrightarrow>
            GetEffectiveNetclass h item =
              Inr (Some (if m_NetCode net = 0 then m_Default (GetDesignSettings (h p))
                         else (case m_NetClass net of
                                 Some nc \<Rightarrow> nc
                               | None \<Rightarrow> m_Default (GetDesignSettings (h p))))))"
  using assms
  by (auto simp add: GetEffectiveNetclass_def GetNetClass_def GetDefault_def GetBoard_def
        split: option.splits)

text \<open>A net record with code 0 and a stale reference to the netclass HV.\<close>

theorem C4_effective_netclass_witness:
  "m_Parent ex_stale = Some 0
   \<and> m_netinfo ex_stale = Some ex_net0_stale
   \<and> m_NetClass ex_net0_stale = Some ex_HV
   \<and> GetEffectiveNetclass (ex_boards []) ex_stale = Inr (Some ex_Default)"
  using C4_effective_netclass [of ex_stale 0 "ex_boards []"]
  by (simp add: ex_stale_def ex_itemA_def ex_net0_stale_def ex_boards_def ex_board_def
        ex_settings_def GetDesignSettings_def)

subsection \<open>C5: items off the copper layers\<close>

text \<open>
  C5. For every item that is on no copper layer, \<open>SetNetCode\<close> ignores the net code it
  is given: the call has the same outcome for any two codes \<open>n\<close> and \<open>k\<close>, so in
  particular the outcome of assigning the orphaned net code. The code that is used
  instead is 0: the item receives the record the board keeps for net 0 (a record whose
  net code is 0), or the orphaned record when it has no board, which is what assigning
  code 0 gives to any item
  \<open>other\<close> of the same board. Hence \<open>GetEffectiveNetclass\<close> and \<open>GetClearance\<close>
  (the item in either position) cannot tell the calls apart.
\<close>

theorem C5_off_copper_net:
  assumes "\<not> m_IsOnCopperLayer item"
    and "m_Parent other = m_Parent item"
  shows "SetNetCode h orphan item n noAssert = SetNetCode h orphan item k noAssert
       \<and> m_netinfo (item_after (SetNetCode h orphan item n noAssert)) =
           (case m_Parent item of None \<Rightarrow> Some orphan | Some p \<Rightarrow> FindNet (h p) 0)
       \<and> (\<forall>p net. m_Parent item = Some p
              \<and> m_netinfo (item_after (SetNetCode h orphan item n noAssert)) = Some net
              \<longrightarrow> m_NetCode net = 0)
       \<and> m_netinfo (item_after (SetNetCode h orphan item n noAssert)) =
           m_netinfo (item_after (SetNetCode h orphan other 0 noAssert))
       \<and> GetEffectiveNetclass h (item_after (SetNetCode h orphan item n noAssert)) =
           GetEffectiveNetclass h (item_after (SetNetCode h orphan other 0 noAssert))
       \<and> GetEffectiveNetclass h (item_after (SetNetCode h orphan item n noAssert)) =
           GetEffectiveNetclass h (item_after (SetNetCode h orphan item k noAssert))
       \<and> GetClearance h (item_after (SetNetCode h orphan item n noAssert)) aLayer aItem aSource =
           GetClearance h (item_after (SetNetCode h orphan item k noAssert)) aLayer aItem aSource
       \<and> GetClearance h itemA aLayer
             (Some (Connected (item_after (SetNetCode h orphan item n noAssert)))) aSource =
           GetClearance h itemA aLayer
             (Some (Connected (item_after (SetNetCode h orphan item k noAssert)))) aSource"
proof -
  have zero: "SetNetCode h orphan item m noAssert = SetNetCode h orphan item 0 noAssert" for m
    using assms(1) by (simp add: SetNetCode_def)
  have same: "SetNetCode h orphan item n noAssert = SetNetCode h orphan item k noAssert"
    using zero [of n] zero [of k] by simp
  have net: "m_netinfo (item_after (SetNetCode h orphan item n noAssert)) =
           (case m_Parent item of None \<Rightarrow> Some orphan | Some p \<Rightarrow> FindNet (h p) 0)"
    using zero [of n] by (simp add: SetNetCode_zero)
  have net': "m_netinfo (item_after (SetNetCode h orphan other 0 noAssert)) =
           (case m_Parent item of None \<Rightarrow> Some orphan | Some p \<Rightarrow> FindNet (h p) 0)"
    using assms(2) by (simp add: SetNetCode_zero)
  have eff: "GetEffectiveNetclass h (item_after (SetNetCode h orphan item n noAssert)) =
           GetEffectiveNetclass h (item_after (SetNetCode h orphan other 0 noAssert))"
    using net net' assms(2) by (intro GetEffectiveNetclass_cong) (simp_all add: SetNetCode_Parent)
  have code: "m_NetCode net = 0"
    if "m_Parent item = Some p"
      and "m_netinfo (item_after (SetNetCode h orphan item n noAssert)) = Some net" for p net
    using that net find_Some_holds [of "\<lambda>n. m_NetCode n = 0" "m_NetInfo (h p)" net]
    by (simp add: FindNet_def)
  show ?thesis
    using same net net' eff code by auto
qed

text \<open>
  An item on the silkscreen that holds net 2 is given net code 2 again: it ends on net 0,
  as with the code \<open>-1\<close>, and as a copper item that is assigned code 0.
\<close>

theorem C5_off_copper_net_witness:
  "\<not> m_IsOnCopperLayer ex_offCopper
   \<and> m_Parent ex_itemHV = m_Parent ex_offCopper
   \<and> m_netinfo ex_offCopper = Some ex_net2
   \<and> m_netinfo (item_after (SetNetCode (ex_boards []) ex_orphan ex_offCopper 2 False))
       = Some ex_net0
   \<and> m_NetCode ex_net0 = 0
   \<and> SetNetCode (ex_boards []) ex_orphan ex_offCopper 2 False
       = SetNetCode (ex_boards []) ex_orphan ex_offCopper (- 1) False
   \<and> GetEffectiveNetclass (ex_boards [])
        (item_after (SetNetCode (ex_boards []) ex_orphan ex_offCopper 2 False))
       = GetEffectiveNetclass (ex_boards [])
        (item_after (SetNetCode (ex_boards []) ex_orphan ex_itemHV 0 False))"
proof -
  have 1: "\<not> m_IsOnCopperLayer ex_offCopper"
    by (simp add: ex_defs)
  have 2: "m_Parent ex_itemHV = m_Parent ex_offCopper"
    by (simp add: ex_defs)
  have 3: "m_netinfo ex_offCopper = Some ex_net2"
    by (simp add: ex_offCopper_def ex_itemHV_def)
  have 4: "(case m_Parent ex_offCopper of None \<Rightarrow> Some ex_orphan
            | Some p \<Rightarrow> FindNet (ex_boards [] p) 0) = Some ex_net0"
    by (simp add: FindNet_def ex_offCopper_def ex_itemHV_def ex_itemA_def ex_boards_def
          ex_board_def ex_net0_def)
  note inst = C5_off_copper_net [OF 1 2, where h = "ex_boards []" and orphan = ex_orphan
      and n = 2 and k = "- 1" and noAssert = False and aLayer = F_Cu and aItem = None
      and aSource = None and itemA = ex_itemA]
  have 5: "m_NetCode ex_net0 = 0"
    by (simp add: ex_net0_def)
  show ?thesis
    using inst [unfolded 4] 1 2 3 5 by blast
qed

subsection \<open>C6: the sign of the result\<close>

text \<open>
  C6, as amended. Whenever \<open>GetClearance\<close> returns a clearance and no matching rule of
  clearance kind has a negative minimum bound, the clearance is non-negative. Levels 1
  and 3 never produce a negative value; Level 2 hands on the minimum bound of the rule
  as it is.
\<close>

theorem C6_non_negative_amended:
  assumes "GetClearance h itemA aLayer aItem aSource = Inr (c, src)"
    and "\<forall>con. fst (GetConstraint h itemA aItem DRC_CONSTRAINT_TYPE_CLEARANCE aLayer aSource)
                 = Some con \<longrightarrow> 0 \<le> m_min (m_Value con)"
  shows "0 \<le> c"
proof (cases "m_Parent itemA")
  case None
  then show ?thesis
    using assms(1) by (simp add: GetClearance_def GetBoard_def Let_def)
next
  case (Some p)
  then have board: "GetBoard h itemA = Some (h p)"
    by (rule GetBoard_Some)
  show ?thesis
  proof (cases "0 < local_overrides_max itemA aItem")
    case True
    then show ?thesis
      using assms(1) board by (simp add: GetClearance_level1)
  next
    case False
    then have no_override: "local_overrides_max itemA aItem \<le> 0"
      by simp
    obtain co s where gc:
      "GetConstraint h itemA aItem DRC_CONSTRAINT_TYPE_CLEARANCE aLayer aSource = (co, s)"
      by (cases "GetConstraint h itemA aItem DRC_CONSTRAINT_TYPE_CLEARANCE aLayer aSource")
    show ?thesis
    proof (cases co)
      case (Some con)
      then have "c = m_min (m_Value con)"
        using assms(1) board no_override gc
        by (simp add: GetClearance_level23 GetRuleClearance_match)
      then show ?thesis
        using assms(2) gc Some by simp
    next
      case None
      then have "level3 h (h p) itemA aItem (dynamic_cast aItem) 0 aSource = Inr (c, src)"
        using assms(1) board no_override gc
        by (simp add: GetClearance_level23 GetRuleClearance_no_match)
      then obtain cands where "Inr (c, src) = Inr (foldl raise_to (0, aSource) cands)"
        using level3_cases [of h "h p" itemA aItem 0 aSource] by auto
      then have "c = foldl max 0 (map fst cands)"
        by (metis fst_conv fst_foldl_raise_to sum.inject(2))
      then show ?thesis
        by (simp add: foldl_max_ge)
    qed
  qed
qed

theorem C6_non_negative_amended_witness:
  "GetClearance (ex_boards [ex_rule 50]) ex_itemHV F_Cu None None = Inr (50, None)
   \<and> fst (GetConstraint (ex_boards [ex_rule 50]) ex_itemHV None DRC_CONSTRAINT_TYPE_CLEARANCE
           F_Cu None) = Some (m_Constraint (ex_rule 50))
   \<and> 0 \<le> m_min (m_Value (m_Constraint (ex_rule 50)))
   \<and> (0::int) \<le> 50"
proof -
  have 1: "GetClearance (ex_boards [ex_rule 50]) ex_itemHV F_Cu None None = Inr (50, None)"
    by (simp add: code_defs ex_defs)
  have 2: "fst (GetConstraint (ex_boards [ex_rule 50]) ex_itemHV None
             DRC_CONSTRAINT_TYPE_CLEARANCE F_Cu None) = Some (m_Constraint (ex_rule 50))"
    by (simp add: GetConstraint_def GetBoard_def GetDesignSettings_def assign_def ex_defs)
  have 3: "\<forall>con. fst (GetConstraint (ex_boards [ex_rule 50]) ex_itemHV None
             DRC_CONSTRAINT_TYPE_CLEARANCE F_Cu None) = Some con \<longrightarrow> 0 \<le> m_min (m_Value con)"
    using 2 by (simp add: ex_rule_def)
  have 4: "0 \<le> m_min (m_Value (m_Constraint (ex_rule 50)))"
    by (simp add: ex_rule_def)
  show ?thesis
    using C6_non_negative_amended [OF 1 3] 1 2 4 by simp
qed

text \<open>
  C6 as stated fails: a matching rule whose minimum bound is \<open>-1000\<close> makes
  \<open>GetClearance\<close> return \<open>-1000\<close>.
\<close>

theorem C6_negative_rule_counterexample:
  "GetClearance (ex_boards [ex_rule (- 1000)]) ex_itemHV F_Cu None None = Inr (- 1000, None)"
  by (simp add: code_defs ex_defs)

subsection \<open>C7: swapping the two items\<close>

text \<open>
  C7, as amended. For two connected items attached to the same board, neither with a
  strictly positive local clearance override, no rule matching in either direction, and
  either both on \<open>Edge_Cuts\<close> or neither: swapping the roles of itemA and itemB gives
  the same clearance.
\<close>

theorem C7_swap_amended:
  assumes "m_Parent itemA = Some p" and "m_Parent itemB = Some p"
    and "m_LocalClearanceOverrides itemA \<le> 0" and "m_LocalClearanceOverrides itemB \<le> 0"
    and "fst (GetConstraint h itemA (Some (Connected itemB)) DRC_CONSTRAINT_TYPE_CLEARANCE
               aLayer srcA) = None"
    and "fst (GetConstraint h itemB (Some (Connected itemA)) DRC_CONSTRAINT_TYPE_CLEARANCE
               aLayer srcB) = None"
    and "(m_Layer itemA = Edge_Cuts) = (m_Layer itemB = Edge_Cuts)"
  shows "clearance_of (GetClearance h itemA aLayer (Some (Connected itemB)) srcA) =
         clearance_of (GetClearance h itemB aLayer (Some (Connected itemA)) srcB)"
proof -
  have ab: "GetClearance h itemA aLayer (Some (Connected itemB)) srcA =
        level3 h (h p) itemA (Some (Connected itemB)) (Some itemB) 0 srcA"
    using GetClearance_level3 [OF assms(1) _ assms(5)] assms(3,4)
    by (simp add: local_overrides_max_def)
  have ba: "GetClearance h itemB aLayer (Some (Connected itemA)) srcB =
        level3 h (h p) itemB (Some (Connected itemA)) (Some itemA) 0 srcB"
    using GetClearance_level3 [OF assms(2) _ assms(6)] assms(3,4)
    by (simp add: local_overrides_max_def)
  consider (errA) "GetEffectiveNetclass h itemA = Inl NullDeref"
    | (errB) "GetEffectiveNetclass h itemB = Inl NullDeref"
    | (ok) ncA ncB where "GetEffectiveNetclass h itemA = Inr (Some ncA)"
        and "GetEffectiveNetclass h itemB = Inr (Some ncB)"
    using GetEffectiveNetclass_cases [of h itemA] GetEffectiveNetclass_cases [of h itemB]
    by blast
  then show ?thesis
  proof cases
    case errA
    then show ?thesis
      unfolding ab ba by (simp add: level3_error_this level3_error_second)
  next
    case errB
    then show ?thesis
      unfolding ab ba by (simp add: level3_error_this level3_error_second)
  next
    case ok
    have 1: "level3 h (h p) itemA (Some (Connected itemB)) (Some itemB) 0 srcA =
          Inr (foldl raise_to (0, srcA)
            (level3_candidates (GetDesignSettings (h p)) itemA ncA (Some (Connected itemB)) ncB))"
      using level3_result [of h itemA ncA "Some (Connected itemB)" ncB "h p" 0 srcA] ok
      by simp
    have 2: "level3 h (h p) itemB (Some (Connected itemA)) (Some itemA) 0 srcB =
          Inr (foldl raise_to (0, srcB)
            (level3_candidates (GetDesignSettings (h p)) itemB ncB (Some (Connected itemA)) ncA))"
      using level3_result [of h itemB ncB "Some (Connected itemA)" ncA "h p" 0 srcB] ok
      by simp
    show ?thesis
      unfolding ab ba 1 2 clearance_of_foldl
      using assms(7)
      by (simp add: level3_candidates_def GetLayer_def max.commute max.left_commute max.assoc)
  qed
qed

theorem C7_swap_amended_witness:
  "m_Parent ex_itemA = Some 0 \<and> m_Parent ex_itemHV = Some 0
   \<and> m_LocalClearanceOverrides ex_itemA \<le> 0 \<and> m_LocalClearanceOverrides ex_itemHV \<le> 0
   \<and> fst (GetConstraint (ex_boards []) ex_itemA (Some (Connected ex_itemHV))
             DRC_CONSTRAINT_TYPE_CLEARANCE F_Cu None) = None
   \<and> fst (GetConstraint (ex_boards []) ex_itemHV (Some (Connected ex_itemA))
             DRC_CONSTRAINT_TYPE_CLEARANCE F_Cu None) = None
   \<and> (m_Layer ex_itemA = Edge_Cuts) = (m_Layer ex_itemHV = Edge_Cuts)
   \<and> clearance_of (GetClearance (ex_boards []) ex_itemA F_Cu (Some (Connected ex_itemHV)) None)
       = Inr 300
   \<and> clearance_of (GetClearance (ex_boards []) ex_itemHV F_Cu (Some (Connected ex_itemA)) None)
       = Inr 300"
proof -
  have 1: "m_Parent ex_itemA = Some 0" and 2: "m_Parent ex_itemHV = Some 0"
    and 3: "m_LocalClearanceOverrides ex_itemA \<le> 0"
    and 4: "m_LocalClearanceOverrides ex_itemHV \<le> 0"
    and 7: "(m_Layer ex_itemA = Edge_Cuts) = (m_Layer ex_itemHV = Edge_Cuts)"
    by (simp_all add: ex_itemA_def ex_itemHV_def)
  have 5: "fst (GetConstraint (ex_boards []) ex_itemA (Some (Connected ex_itemHV))
             DRC_CONSTRAINT_TYPE_CLEARANCE F_Cu None) = None"
    by (simp add: GetConstraint_def GetBoard_def GetDesignSettings_def ex_itemA_def
          ex_boards_def ex_board_def ex_settings_def)
  have 6: "fst (GetConstraint (ex_boards []) ex_itemHV (Some (Connected ex_itemA))
             DRC_CONSTRAINT_TYPE_CLEARANCE F_Cu None) = None"
    by (simp add: GetConstraint_def GetBoard_def GetDesignSettings_def ex_itemA_def
          ex_itemHV_def ex_boards_def ex_board_def ex_settings_def)
  have 8: "clearance_of (GetClearance (ex_boards []) ex_itemA F_Cu
             (Some (Connected ex_itemHV)) None) = Inr 300"
    by (simp add: clearance_of_def code_defs ex_defs)
  show ?thesis
    using C7_swap_amended [OF 1 2 3 4 5 6 7] 1 2 3 4 5 6 7 8 by simp
qed

text \<open>
  C7 as stated fails: the copper-edge clearance is a candidate only when the second item
  is on \<open>Edge_Cuts\<close>. With itemB on \<open>Edge_Cuts\<close> and itemA on \<open>F_Cu\<close> the query
  (itemA, itemB) gives the edge clearance 250 and the query (itemB, itemA) gives 200.
\<close>

theorem C7_swap_counterexample:
  "m_Parent ex_itemA = Some 0 \<and> m_Parent ex_itemB = Some 0
   \<and> m_LocalClearanceOverrides ex_itemA = 0 \<and> m_LocalClearanceOverrides ex_itemB = 0
   \<and> m_DRCRules (GetDesignSettings (ex_boards [] 0)) = []
   \<and> clearance_of (GetClearance (ex_boards []) ex_itemA F_Cu (Some (Connected ex_itemB)) None)
       = Inr 250
   \<and> clearance_of (GetClearance (ex_boards []) ex_itemB F_Cu (Some (Connected ex_itemA)) None)
       = Inr 200"
  by (simp add: clearance_of_def code_defs ex_defs)

subsection \<open>C8: raising the board minimum clearance\<close>

text \<open>
  C8. Let \<open>m1 \<le> m2\<close> be two values of the minimum clearance of the board at \<open>p\<close>, all
  other state equal. Either both queries fail in the same way, or both return and the
  clearance under \<open>m2\<close> is at least the clearance under \<open>m1\<close>; when a strictly
  positive local override or a matching rule decides the result, the two are equal.
\<close>

theorem C8_min_clearance_monotone:
  assumes "m1 \<le> m2"
  shows "(GetClearance (with_MinClearance h p m1) itemA aLayer aItem aSource = Inl NullDeref
          \<and> GetClearance (with_MinClearance h p m2) itemA aLayer aItem aSource = Inl NullDeref)
       \<or> (\<exists>c1 c2.
            clearance_of (GetClearance (with_MinClearance h p m1) itemA aLayer aItem aSource)
              = Inr c1
          \<and> clearance_of (GetClearance (with_MinClearance h p m2) itemA aLayer aItem aSource)
              = Inr c2
          \<and> c1 \<le> c2
          \<and> (0 < local_overrides_max itemA aItem
               \<or> fst (GetConstraint (with_MinClearance h p m1) itemA aItem
                        DRC_CONSTRAINT_TYPE_CLEARANCE aLayer aSource) \<noteq> None
              \<longrightarrow> c1 = c2))"
proof (cases "m_Parent itemA")
  case None
  then show ?thesis
    by (simp add: GetClearance_def GetBoard_def Let_def)
next
  case (Some q)
  let ?h1 = "with_MinClearance h p m1" and ?h2 = "with_MinClearance h p m2"
  have b1: "GetBoard ?h1 itemA = Some (?h1 q)" and b2: "GetBoard ?h2 itemA = Some (?h2 q)"
    using Some by (simp_all add: GetBoard_Some)
  show ?thesis
  proof (cases "0 < local_overrides_max itemA aItem")
    case True
    then show ?thesis
      using b1 b2 by (simp add: GetClearance_level1)
  next
    case False
    then have no_override: "local_overrides_max itemA aItem \<le> 0"
      by simp
    obtain co s where gc:
      "GetConstraint h itemA aItem DRC_CONSTRAINT_TYPE_CLEARANCE aLayer aSource = (co, s)"
      by (cases "GetConstraint h itemA aItem DRC_CONSTRAINT_TYPE_CLEARANCE aLayer aSource")
    show ?thesis
    proof (cases co)
      case (Some con)
      then show ?thesis
        using b1 b2 no_override gc
        by (simp add: GetClearance_level23 GetRuleClearance_match
              GetConstraint_with_MinClearance)
    next
      case None
      then have no_rule: "fst (GetConstraint h itemA aItem DRC_CONSTRAINT_TYPE_CLEARANCE aLayer
                                aSource) = None"
        using gc by simp
      have r1: "GetClearance ?h1 itemA aLayer aItem aSource =
                level3 h (?h1 q) itemA aItem (dynamic_cast aItem) 0 aSource"
        using \<open>m_Parent itemA = Some q\<close> no_override no_rule
        by (simp add: GetClearance_level3 GetConstraint_with_MinClearance
              level3_with_MinClearance)
      have r2: "GetClearance ?h2 itemA aLayer aItem aSource =
                level3 h (?h2 q) itemA aItem (dynamic_cast aItem) 0 aSource"
        using \<open>m_Parent itemA = Some q\<close> no_override no_rule
        by (simp add: GetClearance_level3 GetConstraint_with_MinClearance
              level3_with_MinClearance)
      consider (err) "level3 h (?h1 q) itemA aItem (dynamic_cast aItem) 0 aSource = Inl NullDeref"
        | (ok) ncA ncB where "GetEffectiveNetclass h itemA = Inr (Some ncA)"
            and "\<forall>s. dynamic_cast aItem = Some s \<longrightarrow> GetEffectiveNetclass h s = Inr (Some ncB)"
        using level3_cases [of h "?h1 q" itemA aItem 0 aSource] by blast
      then show ?thesis
      proof cases
        case err
        have "level3 h (?h2 q) itemA aItem (dynamic_cast aItem) 0 aSource = Inl NullDeref"
        proof (rule ccontr)
          assume "level3 h (?h2 q) itemA aItem (dynamic_cast aItem) 0 aSource \<noteq> Inl NullDeref"
          then obtain ncA ncB where "GetEffectiveNetclass h itemA = Inr (Some ncA)"
            and "\<forall>s. dynamic_cast aItem = Some s \<longrightarrow> GetEffectiveNetclass h s = Inr (Some ncB)"
            using level3_cases [of h "?h2 q" itemA aItem 0 aSource] by blast
          then have "level3 h (?h1 q) itemA aItem (dynamic_cast aItem) 0 aSource =
              Inr (foldl raise_to (0, aSource)
                    (level3_candidates (GetDesignSettings (?h1 q)) itemA ncA aItem ncB))"
            by (intro level3_result) simp_all
          then show False using err by simp
        qed
        then show ?thesis
          using err r1 r2 by simp
      next
        case ok
        let ?bds = "GetDesignSettings (h q)"
        let ?m1 = "if q = p then m1 else m_MinClearance ?bds"
        let ?m2 = "if q = p then m2 else m_MinClearance ?bds"
        have l1: "level3 h (?h1 q) itemA aItem (dynamic_cast aItem) 0 aSource =
              Inr (foldl raise_to (0, aSource)
                    (level3_candidates (GetDesignSettings (?h1 q)) itemA ncA aItem ncB))"
          using ok by (intro level3_result) simp_all
        have v1: "clearance_of (GetClearance ?h1 itemA aLayer aItem aSource) =
              Inr (foldl max 0 (map fst
                (level3_candidates (?bds\<lparr> m_MinClearance := ?m1 \<rparr>) itemA ncA aItem ncB)))"
          unfolding r1 l1 clearance_of_foldl GetDesignSettings_with_MinClearance
          by (rule refl)
        have l2: "level3 h (?h2 q) itemA aItem (dynamic_cast aItem) 0 aSource =
              Inr (foldl raise_to (0, aSource)
                    (level3_candidates (GetDesignSettings (?h2 q)) itemA ncA aItem ncB))"
          using ok by (intro level3_result) simp_all
        have v2: "clearance_of (GetClearance ?h2 itemA aLayer aItem aSource) =
              Inr (foldl max 0 (map fst
                (level3_candidates (?bds\<lparr> m_MinClearance := ?m2 \<rparr>) itemA ncA aItem ncB)))"
          unfolding r2 l2 clearance_of_foldl GetDesignSettings_with_MinClearance
          by (rule refl)
        have "?m1 \<le> ?m2"
          using assms by simp
        then have le: "foldl max 0 (map fst
                (level3_candidates (?bds\<lparr> m_MinClearance := ?m1 \<rparr>) itemA ncA aItem ncB))
            \<le> foldl max 0 (map fst
                (level3_candidates (?bds\<lparr> m_MinClearance := ?m2 \<rparr>) itemA ncA aItem ncB))"
          by (rule level3_value_mono)
        show ?thesis
          using v1 v2 le False no_rule
          by (simp add: GetConstraint_with_MinClearance)
      qed
    qed
  qed
qed

theorem C8_min_clearance_monotone_witness:
  "(150::int) \<le> 400
   \<and> clearance_of (GetClearance (with_MinClearance (ex_boards []) 0 150) ex_itemA F_Cu None None)
       = Inr 200
   \<and> clearance_of (GetClearance (with_MinClearance (ex_boards []) 0 400) ex_itemA F_Cu None None)
       = Inr 400
   \<and> 0 < local_overrides_max ex_pad None
   \<and> clearance_of (GetClearance (with_MinClearance (ex_boards []) 0 150) ex_pad F_Cu None None)
       = Inr 100
   \<and> clearance_of (GetClearance (with_MinClearance (ex_boards []) 0 400) ex_pad F_Cu None None)
       = Inr 100"
proof -
  have le: "(150::int) \<le> 400"
    by simp
  have a1: "clearance_of (GetClearance (with_MinClearance (ex_boards []) 0 150) ex_itemA F_Cu
              None None) = Inr 200"
    by (simp add: clearance_of_def with_MinClearance_def code_defs ex_defs)
  have a2: "clearance_of (GetClearance (with_MinClearance (ex_boards []) 0 400) ex_itemA F_Cu
              None None) = Inr 400"
    by (simp add: clearance_of_def with_MinClearance_def code_defs ex_defs)
  have lom: "0 < local_overrides_max ex_pad None"
    by (simp add: local_overrides_max_def dynamic_cast_def ex_defs)
  have p1: "clearance_of (GetClearance (with_MinClearance (ex_boards []) 0 150) ex_pad F_Cu
              None None) = Inr 100"
    by (simp add: clearance_of_def with_MinClearance_def code_defs ex_defs)
  have p2: "clearance_of (GetClearance (with_MinClearance (ex_boards []) 0 400) ex_pad F_Cu
              None None) = Inr 100"
    using C8_min_clearance_monotone [OF le, of "ex_boards []" 0 ex_pad F_Cu None None] p1 lom
    by auto
  show ?thesis
    using le a1 a2 lom p1 p2 by simp
qed

subsection \<open>C9: an item without a board\<close>

text \<open>
  C9. For every item with no owning board, \<open>GetClearance\<close> returns clearance 0 and no
  error, for any second item, layer and label request; the label of the caller is left
  as it was.
\<close>

theorem C9_no_board:
  assumes "m_Parent itemA = None"
  shows "GetClearance h itemA aLayer aItem aSource = Inr (0, aSource)"
  using assms by (simp add: GetClearance_def GetBoard_def Let_def)

theorem C9_no_board_witness:
  "m_Parent ex_unplaced = None
   \<and> GetClearance (ex_boards [ex_rule 50]) ex_unplaced F_Cu (Some (Connected ex_pad))
        (Some ''unset'')
       = Inr (0, Some ''unset'')"
  using C9_no_board [of ex_unplaced "ex_boards [ex_rule 50]" F_Cu "Some (Connected ex_pad)"
      "Some ''unset''"]
  by (simp add: ex_unplaced_def ex_itemHV_def ex_itemA_def)

subsection \<open>C10: a second item that is not a connected item\<close>

text \<open>
  C10. Let the second item be an item for which the cast to a connected item fails, and
  let no rule match. The result is decided by itemA alone, but for the layer of the
  second item: it is itemA's local override when that is strictly positive, and
  otherwise the maximum of zero, the board minimum, itemA's effective netclass
  clearance, itemA's local clearance, and the copper-edge clearance when the second
  item is on \<open>Edge_Cuts\<close>. No override, local clearance or netclass of the second item
  takes part.
\<close>

theorem C10_not_connected_second:
  assumes "m_Parent itemA = Some p"
    and "fst (GetConstraint h itemA (Some (NotConnected l)) DRC_CONSTRAINT_TYPE_CLEARANCE aLayer
               aSource) = None"
    and "GetEffectiveNetclass h itemA = Inr (Some ncA)"
  shows "clearance_of (GetClearance h itemA aLayer (Some (NotConnected l)) aSource) =
         Inr (if 0 < m_LocalClearanceOverrides itemA
              then m_LocalClearanceOverrides itemA
              else max (max (max (max 0 (m_MinClearance (GetDesignSettings (h p))))
                                 (m_Clearance ncA))
                            (if l = Edge_Cuts
                             then m_CopperEdgeClearance (GetDesignSettings (h p)) else 0))
                       (m_LocalClearance itemA))"
proof -
  have board: "GetBoard h itemA = Some (h p)"
    using assms(1) by (rule GetBoard_Some)
  have cast: "dynamic_cast (Some (NotConnected l)) = None"
    by (simp add: dynamic_cast_def)
  have lom: "local_overrides_max itemA (Some (NotConnected l)) = m_LocalClearanceOverrides itemA"
    by (simp add: local_overrides_max_def cast)
  show ?thesis
  proof (cases "0 < m_LocalClearanceOverrides itemA")
    case True
    then show ?thesis
      using board lom by (simp add: GetClearance_level1)
  next
    case False
    have "GetClearance h itemA aLayer (Some (NotConnected l)) aSource =
          level3 h (h p) itemA (Some (NotConnected l))
            (dynamic_cast (Some (NotConnected l))) 0 aSource"
      using False board lom assms(2)
      by (simp add: GetClearance_level23 GetRuleClearance_no_match)
    also have "\<dots> = Inr (foldl raise_to (0, aSource)
        (level3_candidates (GetDesignSettings (h p)) itemA ncA (Some (NotConnected l)) ncA))"
      using assms(3) cast by (intro level3_result) simp_all
    finally have "clearance_of (GetClearance h itemA aLayer (Some (NotConnected l)) aSource) =
        Inr (foldl max 0 (map fst
          (level3_candidates (GetDesignSettings (h p)) itemA ncA (Some (NotConnected l)) ncA)))"
      by (simp only: clearance_of_foldl)
    then show ?thesis
      using False
      by (simp add: level3_candidates_def cast GetLayer_def)
  qed
qed

theorem C10_not_connected_second_witness:
  "m_Parent ex_itemA = Some 0
   \<and> fst (GetConstraint (ex_boards []) ex_itemA (Some (NotConnected Edge_Cuts))
            DRC_CONSTRAINT_TYPE_CLEARANCE F_Cu None) = None
   \<and> GetEffectiveNetclass (ex_boards []) ex_itemA = Inr (Some ex_Default)
   \<and> clearance_of (GetClearance (ex_boards []) ex_itemA F_Cu (Some (NotConnected Edge_Cuts)) None)
       = Inr 250
   \<and> clearance_of (GetClearance (ex_boards []) ex_itemA F_Cu (Some (NotConnected Margin)) None)
       = Inr 200"
proof -
  have 1: "m_Parent ex_itemA = Some 0"
    by (simp add: ex_itemA_def)
  have 2: "fst (GetConstraint (ex_boards []) ex_itemA (Some (NotConnected l))
            DRC_CONSTRAINT_TYPE_CLEARANCE F_Cu None) = None" for l
    by (simp add: GetConstraint_def GetBoard_def GetDesignSettings_def ex_itemA_def
          ex_boards_def ex_board_def ex_settings_def)
  have 3: "GetEffectiveNetclass (ex_boards []) ex_itemA = Inr (Some ex_Default)"
    by (simp add: GetEffectiveNetclass_def GetBoard_def GetDesignSettings_def GetDefault_def
          ex_itemA_def ex_net0_def ex_boards_def ex_board_def ex_settings_def)
  have 4: "clearance_of (GetClearance (ex_boards []) ex_itemA F_Cu
             (Some (NotConnected Edge_Cuts)) None) = Inr 250"
    using C10_not_connected_second [OF 1 2 3, of Edge_Cuts]
    by (simp add: GetDesignSettings_def ex_boards_def ex_board_def ex_settings_def ex_itemA_def
          ex_Default_def)
  have 5: "clearance_of (GetClearance (ex_boards []) ex_itemA F_Cu
             (Some (NotConnected Margin)) None) = Inr 200"
    using C10_not_connected_second [OF 1 2 3, of Margin]
    by (simp add: GetDesignSettings_def ex_boards_def ex_board_def ex_settings_def ex_itemA_def
          ex_Default_def)
  show ?thesis
    using 1 2 [of Edge_Cuts] 3 4 5 by simp
qed

end
